theory Spec2Isabelle
  imports Complex_Main
begin

section \<open>JavaScript values\<close>

text \<open>
  The analyze handler treats the model's reply as loosely typed data: the result of
  \<^verbatim>\<open>JSON.parse\<close> is cast to \<^verbatim>\<open>AnalysisResult\<close> without a check of
  any member but \<^verbatim>\<open>contains_food\<close>. The values it handles are therefore
  modelled as JavaScript values. A number carries the value of the double; the handler
  only compares numbers, it never computes with them (a literal too large for a double
  parses to an infinity, which the comparisons treat as any number beyond the bound).
  The members of an object are an association list, read with \<open>map_of\<close>.
\<close>

datatype jsval =
    JUndefined
  | JNull
  | JBool bool
  | JNum real
  | JStr string
  | JArr "jsval list"
  | JObj "(string \<times> jsval) list"

text \<open>An \<^verbatim>\<open>Error\<close> object, as far as the handlers read it.\<close>

record js_error =
  err_name :: string
  err_message :: string

text \<open>
  The result of a call that may throw. What is thrown is taken to be an
  \<^verbatim>\<open>Error\<close> object, as the platform and the SDKs throw.
\<close>

datatype 'a outcome = Throws js_error | Returns 'a

definition Error :: "string \<Rightarrow> js_error" where
  "Error msg = \<lparr>err_name = ''Error'', err_message = msg\<rparr>"

text \<open>\<^verbatim>\<open>typeof v\<close>.\<close>

fun typeof :: "jsval \<Rightarrow> string" where
  "typeof JUndefined = ''undefined''"
| "typeof JNull = ''object''"
| "typeof (JBool b) = ''boolean''"
| "typeof (JNum x) = ''number''"
| "typeof (JStr s) = ''string''"
| "typeof (JArr vs) = ''object''"
| "typeof (JObj kvs) = ''object''"

text \<open>
  Truthiness, as \<^verbatim>\<open>!v\<close>, \<^verbatim>\<open>a || b\<close> and \<^verbatim>\<open>c ? a : b\<close> test it. (A parsed
  JSON text holds no NaN.)
\<close>

fun truthy :: "jsval \<Rightarrow> bool" where
  "truthy JUndefined = False"
| "truthy JNull = False"
| "truthy (JBool b) = b"
| "truthy (JNum x) = (x \<noteq> 0)"
| "truthy (JStr s) = (s \<noteq> [])"
| "truthy (JArr vs) = True"
| "truthy (JObj kvs) = True"

text \<open>\<^verbatim>\<open>a || b\<close>.\<close>

definition js_or :: "jsval \<Rightarrow> jsval \<Rightarrow> jsval" where
  "js_or a b = (if truthy a then a else b)"

text \<open>\<^verbatim>\<open>v == null\<close>: the value is \<^verbatim>\<open>null\<close> or \<^verbatim>\<open>undefined\<close>.\<close>

definition nullish :: "jsval \<Rightarrow> bool" where
  "nullish v = (v = JNull \<or> v = JUndefined)"

text \<open>\<^verbatim>\<open>a ?? b\<close>.\<close>

definition js_coalesce :: "jsval \<Rightarrow> jsval \<Rightarrow> jsval" where
  "js_coalesce a b = (if nullish a then b else a)"

text \<open>
  \<^verbatim>\<open>v.k\<close> for a receiver that is neither \<^verbatim>\<open>null\<close> nor \<^verbatim>\<open>undefined\<close>, and for
  a member name \<open>k\<close> that no built-in prototype defines (the handler reads the member
  names of \<^verbatim>\<open>AnalysisResult\<close> and \<^verbatim>\<open>imageUrl\<close> only): an own member of an
  object, \<^verbatim>\<open>undefined\<close> otherwise. On a nullish receiver the access throws a
  \<^verbatim>\<open>TypeError\<close>; every use below is guarded.
\<close>

fun js_member :: "jsval \<Rightarrow> string \<Rightarrow> jsval" where
  "js_member (JObj kvs) k = (case map_of kvs k of None \<Rightarrow> JUndefined | Some v \<Rightarrow> v)"
| "js_member v k = JUndefined"

text \<open>\<^verbatim>\<open>v?.k\<close>.\<close>

definition opt_member :: "jsval \<Rightarrow> string \<Rightarrow> jsval" where
  "opt_member v k = (if nullish v then JUndefined else js_member v k)"

text \<open>The \<^verbatim>\<open>TypeError\<close> of reading member \<open>k\<close> of a nullish value (V8's wording).\<close>

definition TypeError_read :: "jsval \<Rightarrow> string \<Rightarrow> js_error" where
  "TypeError_read v k =
     \<lparr>err_name = ''TypeError'',
      err_message = ''Cannot read properties of ''
        @ (if v = JNull then ''null'' else ''undefined'')
        @ '' (reading '' @ [CHR 0x27] @ k @ [CHR 0x27] @ '')''\<rparr>"

section \<open>Normalization of the model's reply (analyze, step 6)\<close>

text \<open>
  The object literal \<^verbatim>\<open>finalResult\<close> of \<^verbatim>\<open>src/app/api/analyze/route.ts\<close>,
  as a function of \<^verbatim>\<open>analysisResult\<close>. The members keep the order of the source.
\<close>

definition confidence_score :: "jsval \<Rightarrow> jsval" where
  "confidence_score analysisResult =
     (case js_member analysisResult ''confidence_score'' of
        JNum x \<Rightarrow> JNum (max 0 (min 1 x))
      | _ \<Rightarrow> if truthy (js_member analysisResult ''contains_food'') then JNum 0.7 else JNum 0.1)"

definition macros :: "jsval \<Rightarrow> jsval" where
  "macros analysisResult =
     JObj
      [(''protein'', js_coalesce (opt_member (js_member analysisResult ''macros'') ''protein'') JUndefined),
       (''carbs'', js_coalesce (opt_member (js_member analysisResult ''macros'') ''carbs'') JUndefined),
       (''fiber'', js_coalesce (opt_member (js_member analysisResult ''macros'') ''fiber'') JUndefined),
       (''fat'', js_coalesce (opt_member (js_member analysisResult ''macros'') ''fat'') JUndefined),
       (''saturated_fat'',
          js_coalesce (opt_member (js_member analysisResult ''macros'') ''saturated_fat'') JUndefined),
       (''unsaturated_fat'',
          js_coalesce (opt_member (js_member analysisResult ''macros'') ''unsaturated_fat'') JUndefined)]"

definition finalResult :: "jsval \<Rightarrow> js_error + jsval" where
  "finalResult analysisResult =
     (if nullish analysisResult then Inl (TypeError_read analysisResult ''contains_food'')
      else Inr (JObj
        [(''contains_food'', js_member analysisResult ''contains_food''),
         (''dish_name'',
            js_or (js_member analysisResult ''dish_name'')
              (if truthy (js_member analysisResult ''contains_food'')
               then JStr ''Unknown Dish'' else JStr ''N/A'')),
         (''cuisine'', js_or (js_member analysisResult ''cuisine'') (JStr ''Unknown'')),
         (''serving_size'', js_or (js_member analysisResult ''serving_size'') (JStr ''N/A'')),
         (''cooking_method'', js_coalesce (js_member analysisResult ''cooking_method'') JUndefined),
         (''ingredients'', js_or (js_member analysisResult ''ingredients'') (JArr [])),
         (''portion_size'', js_coalesce (js_member analysisResult ''portion_size'') JUndefined),
         (''total_calories'', js_coalesce (js_member analysisResult ''total_calories'') JUndefined),
         (''macros'', macros analysisResult),
         (''portion_comparison'',
            js_coalesce (js_member analysisResult ''portion_comparison'') JUndefined),
         (''allergens'', js_or (js_member analysisResult ''allergens'') (JArr [])),
         (''confidence_score'', confidence_score analysisResult)]))"

text \<open>
  The validation of step 5:
  \<^verbatim>\<open>typeof analysisResult?.contains_food === "boolean"\<close>.
\<close>

definition validated :: "jsval \<Rightarrow> bool" where
  "validated analysisResult =
     (typeof (opt_member analysisResult ''contains_food'') = ''boolean'')"

text \<open>A number in the interval \<open>[0, 1]\<close>.\<close>

fun in_unit_interval :: "jsval \<Rightarrow> bool" where
  "in_unit_interval (JNum x) = (0 \<le> x \<and> x \<le> 1)"
| "in_unit_interval v = False"

section \<open>Strings\<close>

text \<open>
  The string methods the handlers call. Strings are modelled at the level of ASCII
  characters; \<^verbatim>\<open>trim\<close> removes the ASCII white space and line terminators.
\<close>

definition startsWith :: "string \<Rightarrow> string \<Rightarrow> bool" where
  "startsWith s p = (take (length p) s = p)"

definition endsWith :: "string \<Rightarrow> string \<Rightarrow> bool" where
  "endsWith s p = (length p \<le> length s \<and> drop (length s - length p) s = p)"

definition is_whitespace :: "char \<Rightarrow> bool" where
  "is_whitespace c = (c \<in> set [CHR 0x09, CHR 0x0A, CHR 0x0B, CHR 0x0C, CHR 0x0D, CHR 0x20])"

definition trim :: "string \<Rightarrow> string" where
  "trim s = rev (dropWhile is_whitespace (rev (dropWhile is_whitespace s)))"

text \<open>\<^verbatim>\<open>s.indexOf(c)\<close> and \<^verbatim>\<open>s.lastIndexOf(c)\<close> for a one-character \<open>c\<close>: \<open>-1\<close> when absent.\<close>

fun indexOf :: "string \<Rightarrow> char \<Rightarrow> int" where
  "indexOf [] c = - 1"
| "indexOf (x # xs) c =
     (if x = c then 0 else (let i = indexOf xs c in if i < 0 then - 1 else i + 1))"

definition lastIndexOf :: "string \<Rightarrow> char \<Rightarrow> int" where
  "lastIndexOf s c =
     (let i = indexOf (rev s) c in if i < 0 then - 1 else int (length s) - 1 - i)"

text \<open>
  \<^verbatim>\<open>s.substring(a, b)\<close>: both indices are clamped into \<open>[0, length]\<close> and swapped
  when the first is the larger.
\<close>

definition substring :: "string \<Rightarrow> int \<Rightarrow> int \<Rightarrow> string" where
  "substring s a b =
     (let n = int (length s);
          a' = max 0 (min n a);
          b' = max 0 (min n b);
          lo = min a' b';
          hi = max a' b'
      in take (nat (hi - lo)) (drop (nat lo) s))"

text \<open>\<^verbatim>\<open>s.split(c)\<close> for a one-character separator, and \<^verbatim>\<open>xs.pop()\<close>'s result.\<close>

fun js_split :: "string \<Rightarrow> char \<Rightarrow> string list" where
  "js_split [] c = [[]]"
| "js_split (x # xs) c =
     (if x = c then [] # js_split xs c
      else (case js_split xs c of
              [] \<Rightarrow> [[x]]
            | seg # segs \<Rightarrow> (x # seg) # segs))"

definition pop :: "'a list \<Rightarrow> 'a option" where
  "pop xs = (if xs = [] then None else Some (last xs))"

text \<open>\<^verbatim>\<open>xs.join(sep)\<close>.\<close>

fun join :: "string list \<Rightarrow> string \<Rightarrow> string" where
  "join [] sep = []"
| "join [x] sep = x"
| "join (x # y # ys) sep = x @ sep @ join (y # ys) sep"

text \<open>A natural number in a template literal: its decimal digits.\<close>

fun show_nat :: "nat \<Rightarrow> string" where
  "show_nat n =
     (if n < 10 then [''0123456789'' ! n]
      else show_nat (n div 10) @ [''0123456789'' ! (n mod 10)])"

section \<open>Collaborators and their effects\<close>

text \<open>
  \<^verbatim>\<open>supabase.auth.getSession()\<close> resolves to \<^verbatim>\<open>{ data: { session }, error }\<close>. Of the
  session the handlers read \<^verbatim>\<open>session.user.id\<close> only.
\<close>

record getSession_result =
  data_session :: "string option"
  session_error :: "js_error option"

record auth_env =
  getSession :: "getSession_result outcome"

text \<open>
  \<^verbatim>\<open>NextResponse.json(body, { status })\<close>; the status is 200 when none is given.
  The body is the value handed over; its JSON text leaves out the members that are
  \<^verbatim>\<open>undefined\<close>.
\<close>

record response =
  resp_status :: nat
  resp_body :: jsval

definition NextResponse_json :: "jsval \<Rightarrow> nat \<Rightarrow> response" where
  "NextResponse_json b st = \<lparr>resp_status = st, resp_body = b\<rparr>"

text \<open>The row the analyze handler inserts into \<^verbatim>\<open>food_analyses\<close>.\<close>

record insertData =
  user_id :: string
  image_url :: string
  analysis_result :: jsval

record s3_object =
  object_body :: "nat list"
  object_content_type :: string

text \<open>
  The calls a handler makes to its collaborators are logged in the order they are made;
  the world also holds the rows of \<^verbatim>\<open>food_analyses\<close> and the objects of the
  store, keyed by bucket and key (the latest write first).
\<close>

datatype call =
    GetSession
  | Fetch string
  | GenerateContent string "nat list"
  | Insert insertData
  | S3Upload string string "nat list" string
  | S3GetSignedUrl string string nat

record world =
  calls :: "call list"
  food_analyses :: "insertData list"
  s3_objects :: "((string \<times> string) \<times> s3_object) list"

definition log_call :: "call \<Rightarrow> world \<Rightarrow> world" where
  "log_call c w = w\<lparr>calls := calls w @ [c]\<rparr>"

section \<open>The analyze handler\<close>

text \<open>The response of \<^verbatim>\<open>fetch\<close>, as far as the handler reads it.\<close>

record fetch_response =
  img_status :: nat
  img_statusText :: string
  img_content_type :: "string option"
  img_arrayBuffer :: "nat list outcome"

text \<open>\<^verbatim>\<open>response.ok\<close>: the status is in the range 200 to 299.\<close>

definition img_ok :: "fetch_response \<Rightarrow> bool" where
  "img_ok r = (200 \<le> img_status r \<and> img_status r \<le> 299)"

text \<open>
  The reply of \<^verbatim>\<open>model.generateContent\<close>, as far as the handler reads it
  (the types are the SDK's): the candidates, each with its finish reason and the parts
  of its content, each part with its text.
\<close>

datatype FinishReason = STOP | MAX_TOKENS | OtherFinishReason string

record part =
  part_text :: "string option"

record candidate =
  finishReason :: "FinishReason option"
  content_parts :: "part list option"

record GenerateContentResponse =
  candidates :: "candidate list option"

text \<open>
  What one request to the analyze handler meets: the configuration read when the module
  is loaded, and the outcome of each call it makes.
\<close>

record analyze_env = auth_env +
  GOOGLE_API_KEY :: "string option"
  new_GoogleGenerativeAI :: "unit outcome"
  request_json :: "jsval outcome"
  fetch :: "string \<Rightarrow> fetch_response outcome"
  generateContent :: "GenerateContentResponse outcome"
  JSON_parse :: "string \<Rightarrow> jsval outcome"
  db_insert :: "js_error option outcome"

text \<open>
  The module-level initialization: \<^verbatim>\<open>model\<close> and \<^verbatim>\<open>genAI\<close> are non-null when the
  key is set and the client's construction did not throw.
\<close>

definition model_initialized :: "analyze_env \<Rightarrow> bool" where
  "model_initialized env =
     (case GOOGLE_API_KEY env of
        None \<Rightarrow> False
      | Some apiKey \<Rightarrow>
          apiKey \<noteq> [] \<and>
          (case new_GoogleGenerativeAI env of Throws initError \<Rightarrow> False | Returns u \<Rightarrow> True))"

definition imageFetchTimeout :: nat where
  "imageFetchTimeout = 20000"

text \<open>The outer \<^verbatim>\<open>catch\<close> of the handler.\<close>

definition analysis_error :: "js_error \<Rightarrow> response" where
  "analysis_error error =
     NextResponse_json
       (JObj [(''contains_food'', JBool False),
              (''dish_name'', JStr ''Analysis Error''),
              (''error'', JStr (if err_message error \<noteq> [] then err_message error
                               else ''An unexpected server error occurred.''))])
       500"

text \<open>
  Step 2, the body of the \<^verbatim>\<open>try\<close>: the image URL of the request body. (A URL
  that does not look like an S3 HTTPS URL is only logged.)
\<close>

definition read_imageUrl :: "analyze_env \<Rightarrow> js_error + string" where
  "read_imageUrl env =
     (case request_json env of
        Throws e \<Rightarrow> Inl e
      | Returns body \<Rightarrow>
          if nullish body then Inl (TypeError_read body ''imageUrl'')
          else (let imageUrl = js_member body ''imageUrl'' in
                if \<not> truthy imageUrl \<or> typeof imageUrl \<noteq> ''string''
                then Inl (Error ''imageUrl is missing or not a string in request body.'')
                else (case imageUrl of
                        JStr url \<Rightarrow> Inr url
                      | _ \<Rightarrow> Inl (Error ''imageUrl is missing or not a string in request body.''))))"

text \<open>Step 3, the body of the \<^verbatim>\<open>try\<close>: the image's bytes and its content type.\<close>

definition fetch_image :: "analyze_env \<Rightarrow> string \<Rightarrow> js_error + (nat list \<times> string)" where
  "fetch_image env imageUrl =
     (case fetch env imageUrl of
        Throws e \<Rightarrow> Inl e
      | Returns imageResponse \<Rightarrow>
          if \<not> img_ok imageResponse
          then Inl (Error (''Failed to fetch image: '' @ show_nat (img_status imageResponse)
                            @ '' '' @ img_statusText imageResponse))
          else (case img_content_type imageResponse of
                  None \<Rightarrow> Inl (Error ''URL did not return a valid image (Content-Type: N/A).'')
                | Some fetchedContentType \<Rightarrow>
                    if fetchedContentType = [] \<or> \<not> startsWith fetchedContentType ''image/''
                    then Inl (Error (''URL did not return a valid image (Content-Type: ''
                           @ (if fetchedContentType \<noteq> [] then fetchedContentType else ''N/A'')
                           @ '').''))
                    else (case img_arrayBuffer imageResponse of
                            Throws e \<Rightarrow> Inl e
                          | Returns imageBuffer \<Rightarrow> Inr (imageBuffer, fetchedContentType))))"

text \<open>Step 3, the \<^verbatim>\<open>catch\<close>.\<close>

definition fetch_failed :: "js_error \<Rightarrow> response" where
  "fetch_failed fetchError =
     NextResponse_json
       (JObj [(''error'',
                JStr (if err_name fetchError = ''TimeoutError''
                      then ''Fetching image timed out after ''
                             @ show_nat (imageFetchTimeout div 1000) @ '' seconds.''
                      else ''Could not fetch or process image: '' @ err_message fetchError)),
              (''contains_food'', JBool False)])
       400"

text \<open>Step 5: the optional code fence is cut off the reply's text.\<close>

definition strip_fences :: "string \<Rightarrow> string" where
  "strip_fences rawGeminiResponseText =
     (let jsonString = trim rawGeminiResponseText in
      if startsWith jsonString ''```'' \<and> endsWith jsonString ''```''
      then trim (substring jsonString
                   (indexOf jsonString (CHR 0x0A) + 1) (lastIndexOf jsonString (CHR 0x0A)))
      else jsonString)"

text \<open>Step 5: the text is parsed and the parsed value validated.\<close>

definition parse_reply :: "analyze_env \<Rightarrow> string \<Rightarrow> js_error + jsval" where
  "parse_reply env rawGeminiResponseText =
     (let jsonString = strip_fences rawGeminiResponseText in
      if \<not> startsWith jsonString ''{'' \<or> \<not> endsWith jsonString ''}''
      then Inl (Error ''AI response format error: Expected JSON object structure.'')
      else (case JSON_parse env jsonString of
              Throws e \<Rightarrow>
                Inl (Error (''AI response format error: Could not parse JSON. '' @ err_message e))
            | Returns analysisResult \<Rightarrow>
                if \<not> validated analysisResult
                then Inl (Error
                  ''AI response validation error: Required 'contains_food' field is missing or invalid.'')
                else Inr analysisResult))"

text \<open>
  Step 5, the body of the \<^verbatim>\<open>try\<close>: the model is called and its reply checked. The two
  errors the source constructs without a message have the empty message.
\<close>

definition vision_reply :: "analyze_env \<Rightarrow> js_error + jsval" where
  "vision_reply env =
     (case generateContent env of
        Throws e \<Rightarrow> Inl e
      | Returns fullGeminiResponse \<Rightarrow>
          (case (case candidates fullGeminiResponse of
                   None \<Rightarrow> None
                 | Some [] \<Rightarrow> None
                 | Some (c # cs) \<Rightarrow> Some c) of
             None \<Rightarrow> Inl (Error [])
           | Some candidate \<Rightarrow>
               if (case finishReason candidate of
                     None \<Rightarrow> False
                   | Some reason \<Rightarrow> reason \<notin> set [STOP, MAX_TOKENS])
               then Inl (Error [])
               else (case (case content_parts candidate of
                             None \<Rightarrow> None
                           | Some [] \<Rightarrow> None
                           | Some (p # ps) \<Rightarrow> part_text p) of
                       None \<Rightarrow>
                         Inl (Error
                           ''AI analysis failed: Response format unexpected (missing text content).'')
                     | Some rawGeminiResponseText \<Rightarrow>
                         if rawGeminiResponseText = []
                         then Inl (Error
                           ''AI analysis failed: Response format unexpected (missing text content).'')
                         else parse_reply env rawGeminiResponseText)))"

text \<open>Step 5, the \<^verbatim>\<open>catch\<close>.\<close>

definition analysis_failed :: "js_error \<Rightarrow> response" where
  "analysis_failed geminiError =
     NextResponse_json
       (JObj [(''contains_food'', JBool False),
              (''dish_name'', JStr ''Analysis Failed''),
              (''error'',
                JStr (''Could not process AI response: ''
                      @ (if err_message geminiError \<noteq> [] then err_message geminiError
                         else ''Unknown AI error'')))])
       500"

text \<open>
  Step 7: the row is inserted when \<^verbatim>\<open>finalResult.contains_food\<close> is truthy. An
  error the store returns and an exception it throws are both only logged; the row is
  in the table when the insert returned no error.
\<close>

definition save_analysis ::
  "analyze_env \<Rightarrow> string \<Rightarrow> string \<Rightarrow> jsval \<Rightarrow> world \<Rightarrow> world" where
  "save_analysis env uid imageUrl final w =
     (if truthy (js_member final ''contains_food'')
      then (let insertData = \<lparr>user_id = uid, image_url = imageUrl, analysis_result = final\<rparr>;
                w' = log_call (Insert insertData) w
            in case db_insert env of
                 Throws dbCatchError \<Rightarrow> w'
               | Returns (Some dbError) \<Rightarrow> w'
               | Returns None \<Rightarrow> w'\<lparr>food_analyses := food_analyses w' @ [insertData]\<rparr>)
      else w)"

text \<open>
  Steps 0 to 3: the prerequisites, the authentication, the request body and the image.
  The result is the early response, or what the later steps need: the user's id, the
  image's URL, its bytes and its content type.
\<close>

definition steps_0_to_3 ::
  "analyze_env \<Rightarrow> world \<Rightarrow>
     (response \<times> world) + ((string \<times> string \<times> nat list \<times> string) \<times> world)" where
  "steps_0_to_3 env w =
     (if \<not> model_initialized env
      then Inl (NextResponse_json
                  (JObj [(''error'',
                           JStr ''Server configuration error: AI analysis service is unavailable.''),
                         (''contains_food'', JBool False)])
                  503, w)
      else (let w1 = log_call GetSession w in
        case getSession env of
          Throws e \<Rightarrow> Inl (analysis_error e, w1)
        | Returns r \<Rightarrow>
            (case session_error r of
               Some sessionError \<Rightarrow>
                 Inl (NextResponse_json
                        (JObj [(''error'', JStr ''Authentication failed''),
                               (''details'', JStr (err_message sessionError)),
                               (''contains_food'', JBool False)])
                        401, w1)
             | None \<Rightarrow>
                 (case data_session r of
                    None \<Rightarrow>
                      Inl (NextResponse_json
                             (JObj [(''error'', JStr ''Unauthorized''),
                                    (''contains_food'', JBool False)])
                             401, w1)
                  | Some uid \<Rightarrow>
                      (case read_imageUrl env of
                         Inl parseError \<Rightarrow>
                           Inl (NextResponse_json
                                  (JObj [(''error'',
                                           JStr (''Invalid request body: ''
                                                 @ err_message parseError)),
                                         (''contains_food'', JBool False)])
                                  400, w1)
                       | Inr imageUrl \<Rightarrow>
                           (let w2 = log_call (Fetch imageUrl) w1 in
                            case fetch_image env imageUrl of
                              Inl fetchError \<Rightarrow> Inl (fetch_failed fetchError, w2)
                            | Inr (imageBuffer, mimeType) \<Rightarrow>
                                Inr ((uid, imageUrl, imageBuffer, mimeType), w2)))))))"

text \<open>
  Steps 4 to 8: the model is called with the image (sent base64-encoded beside the
  prompt), its reply normalized, saved when it contains food, and returned.
\<close>

definition steps_4_to_8 ::
  "analyze_env \<Rightarrow> string \<times> string \<times> nat list \<times> string \<Rightarrow> world \<Rightarrow> response \<times> world" where
  "steps_4_to_8 env ctx w =
     (case ctx of (uid, imageUrl, imageBuffer, mimeType) \<Rightarrow>
        (let w1 = log_call (GenerateContent mimeType imageBuffer) w in
         case vision_reply env of
           Inl geminiError \<Rightarrow> (analysis_failed geminiError, w1)
         | Inr analysisResult \<Rightarrow>
             if \<not> truthy analysisResult
             then (NextResponse_json
                     (JObj [(''error'', JStr ''Internal server error after AI analysis.''),
                            (''contains_food'', JBool False)])
                     500, w1)
             else (case finalResult analysisResult of
                     Inl e \<Rightarrow> (analysis_error e, w1)
                   | Inr final \<Rightarrow>
                       (NextResponse_json final 200,
                        save_analysis env uid imageUrl final w1))))"

text \<open>The handler \<^verbatim>\<open>POST\<close> of \<^verbatim>\<open>src/app/api/analyze/route.ts\<close>.\<close>

definition analyze_POST :: "analyze_env \<Rightarrow> world \<Rightarrow> response \<times> world" where
  "analyze_POST env w =
     (case steps_0_to_3 env w of
        Inl early \<Rightarrow> early
      | Inr (ctx, w') \<Rightarrow> steps_4_to_8 env ctx w')"

section \<open>The upload handler\<close>

text \<open>
  The \<^verbatim>\<open>File\<close> of the form field, as far as the handler reads it. A form field
  can also hold a string, whose \<^verbatim>\<open>size\<close> and \<^verbatim>\<open>type\<close> are
  \<^verbatim>\<open>undefined\<close>.
\<close>

record File =
  file_name :: string
  file_size :: nat
  file_type :: string
  file_bytes :: "nat list"

datatype form_value = FormFile File | FormString string

record upload_env = auth_env +
  formData_file :: "form_value option outcome"
  uuidv4 :: string
  AWS_S3_BUCKET_NAME :: "string option"
  AWS_ACCESS_KEY_ID :: "string option"
  AWS_SECRET_ACCESS_KEY :: "string option"
  AWS_REGION :: "string option"
  s3_upload :: "unit outcome"
  s3_getSignedUrlPromise :: "string outcome"

text \<open>The configuration at the head of \<^verbatim>\<open>src/app/api/upload/route.ts\<close>.\<close>

definition bucketName :: "upload_env \<Rightarrow> string" where
  "bucketName env =
     (case AWS_S3_BUCKET_NAME env of
        None \<Rightarrow> ''food-analyses-images''
      | Some b \<Rightarrow> if b \<noteq> [] then b else ''food-analyses-images'')"

definition signedUrlExpireSeconds :: nat where
  "signedUrlExpireSeconds = 60 * 60"

definition maxFileSizeMB :: nat where
  "maxFileSizeMB = 5"

definition allowedMimeTypes :: "string list" where
  "allowedMimeTypes = [''image/jpeg'', ''image/png'', ''image/webp'', ''image/gif'']"

definition maxSizeBytes :: nat where
  "maxSizeBytes = maxFileSizeMB * 1024 * 1024"

text \<open>\<^verbatim>\<open>!v\<close> for an environment variable: unset or empty.\<close>

definition unset :: "string option \<Rightarrow> bool" where
  "unset v = (case v of None \<Rightarrow> True | Some s \<Rightarrow> s = [])"

text \<open>
  Step 4: \<^verbatim>\<open>file.name.split(".").pop()\<close> and the key
  \<^verbatim>\<open>`${uuidv4()}.${fileExt}`\<close>; the template literal prints an
  \<^verbatim>\<open>undefined\<close> by its name.
\<close>

definition fileExt :: "File \<Rightarrow> string option" where
  "fileExt f = pop (js_split (file_name f) (CHR ''.''))"

definition fileName :: "upload_env \<Rightarrow> File \<Rightarrow> string" where
  "fileName env f =
     uuidv4 env @ ''.'' @ (case fileExt f of None \<Rightarrow> ''undefined'' | Some ext \<Rightarrow> ext)"

definition upload_failure :: "string \<Rightarrow> nat \<Rightarrow> response" where
  "upload_failure msg st =
     NextResponse_json (JObj [(''error'', JStr msg), (''success'', JBool False)]) st"

definition invalid_file_type :: response where
  "invalid_file_type =
     upload_failure (''Invalid file type. Only '' @ join allowedMimeTypes '', '' @ '' allowed.'') 415"

text \<open>
  Steps 4 to 8, for a file that passed the validation of step 3: the key is generated,
  the file's bytes are read, the credentials checked, the object written and its URL
  signed.
\<close>

definition store_file :: "upload_env \<Rightarrow> File \<Rightarrow> world \<Rightarrow> response \<times> world" where
  "store_file env f w =
     (let key = fileName env f;
          buffer = file_bytes f
      in if unset (AWS_ACCESS_KEY_ID env) \<or> unset (AWS_SECRET_ACCESS_KEY env)
            \<or> unset (AWS_REGION env)
         then (upload_failure ''Server configuration error: AWS details missing'' 500, w)
         else (let w1 = log_call (S3Upload (bucketName env) key buffer (file_type f)) w in
               case s3_upload env of
                 Throws s3UploadError \<Rightarrow>
                   (upload_failure (''S3 upload failed: '' @ err_message s3UploadError) 500, w1)
               | Returns u \<Rightarrow>
                   (let w2 = w1\<lparr>s3_objects :=
                                 ((bucketName env, key),
                                  \<lparr>object_body = buffer, object_content_type = file_type f\<rparr>)
                                 # s3_objects w1\<rparr>;
                        w3 = log_call (S3GetSignedUrl (bucketName env) key signedUrlExpireSeconds) w2
                    in case s3_getSignedUrlPromise env of
                         Throws signingError \<Rightarrow>
                           (upload_failure
                              (''Failed to create access URL after upload: ''
                               @ err_message signingError) 500, w3)
                       | Returns signedUrl \<Rightarrow>
                           (NextResponse_json
                              (JObj [(''url'', JStr signedUrl),
                                     (''success'', JBool True),
                                     (''s3_key'', JStr key)])
                              200, w3))))"

text \<open>The handler \<^verbatim>\<open>POST\<close> of \<^verbatim>\<open>src/app/api/upload/route.ts\<close>.\<close>

definition upload_POST :: "upload_env \<Rightarrow> world \<Rightarrow> response \<times> world" where
  "upload_POST env w =
     (let w1 = log_call GetSession w in
      case getSession env of
        Throws error \<Rightarrow>
          (upload_failure
             (if err_message error \<noteq> [] then err_message error
              else ''An unexpected server error occurred during upload.'') 500, w1)
      | Returns r \<Rightarrow>
          (case session_error r of
             Some sessionError \<Rightarrow>
               (NextResponse_json
                  (JObj [(''error'', JStr ''Authentication failed''),
                         (''details'', JStr (err_message sessionError)),
                         (''success'', JBool False)])
                  401, w1)
           | None \<Rightarrow>
               (case data_session r of
                  None \<Rightarrow> (upload_failure ''Unauthorized'' 401, w1)
                | Some uid \<Rightarrow>
                    (case formData_file env of
                       Throws e \<Rightarrow>
                         (upload_failure (''Failed to parse form data: '' @ err_message e) 400, w1)
                     | Returns None \<Rightarrow> (upload_failure ''No file provided'' 400, w1)
                     | Returns (Some (FormString s)) \<Rightarrow>
                         if s = [] then (upload_failure ''No file provided'' 400, w1)
                         else (invalid_file_type, w1)
                     | Returns (Some (FormFile f)) \<Rightarrow>
                         if file_size f > maxSizeBytes
                         then (upload_failure
                                 (''File too large (max '' @ show_nat maxFileSizeMB @ ''MB)'')
                                 413, w1)
                         else if file_type f \<notin> set allowedMimeTypes
                         then (invalid_file_type, w1)
                         else store_file env f w1))))"

section \<open>Sample requests\<close>

text \<open>
  A run of the analyze handler in which every collaborator answers: the model's reply is
  the fenced text of \<^verbatim>\<open>{"contains_food": true, "total_calories": 450}\<close>.
\<close>

definition sample_text :: string where
  "sample_text =
     ''```json'' @ [CHR 0x0A] @ ''{\"contains_food\": true, \"total_calories\": 450}''
       @ [CHR 0x0A] @ ''```''"

definition sample_reply :: jsval where
  "sample_reply = JObj [(''contains_food'', JBool True), (''total_calories'', JNum 450)]"

text \<open>The normalized result of that reply.\<close>

definition sample_final :: jsval where
  "sample_final =
     JObj
       [(''contains_food'', JBool True),
        (''dish_name'', JStr ''Unknown Dish''),
        (''cuisine'', JStr ''Unknown''),
        (''serving_size'', JStr ''N/A''),
        (''cooking_method'', JUndefined),
        (''ingredients'', JArr []),
        (''portion_size'', JUndefined),
        (''total_calories'', JNum 450),
        (''macros'',
           JObj [(''protein'', JUndefined), (''carbs'', JUndefined), (''fiber'', JUndefined),
                 (''fat'', JUndefined), (''saturated_fat'', JUndefined),
                 (''unsaturated_fat'', JUndefined)]),
        (''portion_comparison'', JUndefined),
        (''allergens'', JArr []),
        (''confidence_score'', JNum 0.7)]"

definition sample_JSON_parse :: "string \<Rightarrow> jsval outcome" where
  "sample_JSON_parse s =
     (if s = ''{\"contains_food\": true, \"total_calories\": 450}'' then Returns sample_reply
      else Throws \<lparr>err_name = ''SyntaxError'', err_message = ''Unexpected token''\<rparr>)"

definition sample_url :: string where
  "sample_url = ''https://bucket.s3.amazonaws.com/photo.jpg?X-Amz-Signature=ab''"

definition sample_image :: fetch_response where
  "sample_image =
     \<lparr>img_status = 200, img_statusText = ''OK'', img_content_type = Some ''image/jpeg'',
      img_arrayBuffer = Returns [255, 216, 255]\<rparr>"

definition sample_candidate :: candidate where
  "sample_candidate =
     \<lparr>finishReason = Some STOP, content_parts = Some [\<lparr>part_text = Some sample_text\<rparr>]\<rparr>"

definition env_ok :: analyze_env where
  "env_ok =
     \<lparr>getSession = Returns \<lparr>data_session = Some ''user-1'', session_error = None\<rparr>,
      GOOGLE_API_KEY = Some ''key'',
      new_GoogleGenerativeAI = Returns (),
      request_json = Returns (JObj [(''imageUrl'', JStr sample_url)]),
      fetch = (\<lambda>url. Returns sample_image),
      generateContent = Returns \<lparr>candidates = Some [sample_candidate]\<rparr>,
      JSON_parse = sample_JSON_parse,
      db_insert = Returns None\<rparr>"

text \<open>The same run with a store that rejects the insert.\<close>

definition env_insert_fails :: analyze_env where
  "env_insert_fails =
     env_ok\<lparr>db_insert := Returns (Some \<lparr>err_name = ''PostgrestError'',
                                           err_message = ''permission denied''\<rparr>)\<rparr>"

text \<open>A run in which the model's call is blocked for safety.\<close>

definition env_model_fails :: analyze_env where
  "env_model_fails =
     env_ok\<lparr>generateContent :=
        Returns \<lparr>candidates = Some [\<lparr>finishReason = Some (OtherFinishReason ''SAFETY''),
                                      content_parts = None\<rparr>]\<rparr>\<rparr>"

text \<open>A request without a session; and the same on a server without the model's key.\<close>

definition env_anonymous :: analyze_env where
  "env_anonymous =
     env_ok\<lparr>getSession := Returns \<lparr>data_session = None, session_error = None\<rparr>\<rparr>"

definition env_unconfigured :: analyze_env where
  "env_unconfigured = env_anonymous\<lparr>GOOGLE_API_KEY := None\<rparr>"

definition world0 :: world where
  "world0 = \<lparr>calls = [], food_analyses = [], s3_objects = []\<rparr>"

text \<open>An upload of a photo, and of a file of 6 MiB.\<close>

definition photo :: File where
  "photo =
     \<lparr>file_name = ''my.lunch.JPG'', file_size = 2097152, file_type = ''image/jpeg'',
      file_bytes = [255, 216, 255]\<rparr>"

definition upload_env_ok :: upload_env where
  "upload_env_ok =
     \<lparr>getSession = Returns \<lparr>data_session = Some ''user-1'', session_error = None\<rparr>,
      formData_file = Returns (Some (FormFile photo)),
      uuidv4 = ''1b9d6bcd-bbfd-4b2d-9b5d-ab8dfbbd4bed'',
      AWS_S3_BUCKET_NAME = None,
      AWS_ACCESS_KEY_ID = Some ''id'',
      AWS_SECRET_ACCESS_KEY = Some ''secret'',
      AWS_REGION = Some ''eu-west-1'',
      s3_upload = Returns (),
      s3_getSignedUrlPromise = Returns sample_url\<rparr>"

definition upload_env_big :: upload_env where
  "upload_env_big =
     upload_env_ok\<lparr>formData_file := Returns (Some (FormFile (photo\<lparr>file_size := 6291456\<rparr>)))\<rparr>"

declare show_nat.simps [simp del]


section \<open>Properties of the normalization\<close>

lemma js_or_idem: "truthy d \<Longrightarrow> js_or (js_or a d) d' = js_or a d"
  by (simp add: js_or_def)

lemma js_coalesce_idem:
  "js_coalesce (js_coalesce a JUndefined) JUndefined = js_coalesce a JUndefined"
  by (simp add: js_coalesce_def nullish_def)

lemma truthy_defined: "truthy v \<Longrightarrow> v \<noteq> JUndefined"
  by (cases v) simp_all

lemma confidence_score_range: "in_unit_interval (confidence_score r)"
  by (cases "js_member r ''confidence_score''") (simp_all add: confidence_score_def)

lemma validated_not_nullish: "validated r \<Longrightarrow> \<not> nullish r"
  by (auto simp: validated_def opt_member_def)

lemma validated_contains_food: "validated r \<Longrightarrow> \<exists>b. js_member r ''contains_food'' = JBool b"
  by (cases "js_member r ''contains_food''")
     (auto simp: validated_def opt_member_def split: if_splits)

lemma validated_truthy: "validated r \<Longrightarrow> truthy r"
  by (cases r) (simp_all add: validated_def opt_member_def nullish_def)

lemma finalResult_members:
  assumes "finalResult r = Inr n"
  shows "js_member n ''contains_food'' = js_member r ''contains_food''"
    and "js_member n ''dish_name'' = js_or (js_member r ''dish_name'')
              (if truthy (js_member r ''contains_food'')
               then JStr ''Unknown Dish'' else JStr ''N/A'')"
    and "js_member n ''cuisine'' = js_or (js_member r ''cuisine'') (JStr ''Unknown'')"
    and "js_member n ''serving_size'' = js_or (js_member r ''serving_size'') (JStr ''N/A'')"
    and "js_member n ''cooking_method'' = js_coalesce (js_member r ''cooking_method'') JUndefined"
    and "js_member n ''ingredients'' = js_or (js_member r ''ingredients'') (JArr [])"
    and "js_member n ''portion_size'' = js_coalesce (js_member r ''portion_size'') JUndefined"
    and "js_member n ''total_calories'' = js_coalesce (js_member r ''total_calories'') JUndefined"
    and "js_member n ''macros'' = macros r"
    and "js_member n ''portion_comparison'' =
           js_coalesce (js_member r ''portion_comparison'') JUndefined"
    and "js_member n ''allergens'' = js_or (js_member r ''allergens'') (JArr [])"
    and "js_member n ''confidence_score'' = confidence_score r"
  using assms by (auto simp: finalResult_def split: if_splits)

lemma macros_idem:
  assumes "js_member n ''macros'' = macros r"
  shows "macros n = macros r"
  unfolding macros_def[of n] assms
  by (simp add: macros_def opt_member_def nullish_def js_coalesce_def)

lemma confidence_score_idem:
  assumes "js_member n ''confidence_score'' = confidence_score r"
  shows "confidence_score n = confidence_score r"
proof -
  obtain x where x: "confidence_score r = JNum x" "0 \<le> x" "x \<le> 1"
    using confidence_score_range[of r] by (cases "confidence_score r") simp_all
  show ?thesis
    using x assms by (simp add: confidence_score_def[of n])
qed

lemma finalResult_idem:
  assumes "finalResult r = Inr n"
  shows "finalResult n = Inr n"
proof -
  note m = finalResult_members[OF assms]
  have n: "n = JObj
        [(''contains_food'', js_member n ''contains_food''),
         (''dish_name'', js_member n ''dish_name''),
         (''cuisine'', js_member n ''cuisine''),
         (''serving_size'', js_member n ''serving_size''),
         (''cooking_method'', js_member n ''cooking_method''),
         (''ingredients'', js_member n ''ingredients''),
         (''portion_size'', js_member n ''portion_size''),
         (''total_calories'', js_member n ''total_calories''),
         (''macros'', js_member n ''macros''),
         (''portion_comparison'', js_member n ''portion_comparison''),
         (''allergens'', js_member n ''allergens''),
         (''confidence_score'', js_member n ''confidence_score'')]"
    unfolding m using assms by (auto simp: finalResult_def split: if_splits)
  then have nn: "\<not> nullish n"
    by (cases n) (simp_all add: nullish_def)
  have "finalResult n = Inr (JObj
        [(''contains_food'', js_member n ''contains_food''),
         (''dish_name'', js_member n ''dish_name''),
         (''cuisine'', js_member n ''cuisine''),
         (''serving_size'', js_member n ''serving_size''),
         (''cooking_method'', js_member n ''cooking_method''),
         (''ingredients'', js_member n ''ingredients''),
         (''portion_size'', js_member n ''portion_size''),
         (''total_calories'', js_member n ''total_calories''),
         (''macros'', js_member n ''macros''),
         (''portion_comparison'', js_member n ''portion_comparison''),
         (''allergens'', js_member n ''allergens''),
         (''confidence_score'', js_member n ''confidence_score'')])"
    unfolding finalResult_def[of n]
    using nn macros_idem[OF m(9)] confidence_score_idem[OF m(12)]
    by (simp add: m js_or_idem js_coalesce_idem)
  then show ?thesis using n by simp
qed

text \<open>
  Claim C7. Normalization is idempotent: wherever the normalization of a reply \<open>r\<close>
  returns (the reply is neither \<^verbatim>\<open>null\<close> nor \<^verbatim>\<open>undefined\<close>), normalizing its
  result \<open>n\<close> again returns \<open>n\<close> itself; no default overwrites a value that is present.
\<close>
theorem finalResult_idempotent:
  assumes "\<not> nullish r"
  shows "\<exists>n. finalResult r = Inr n \<and> finalResult n = Inr n"
proof -
  obtain n where n: "finalResult r = Inr n"
    using assms by (simp add: finalResult_def)
  from finalResult_idem[OF n] n show ?thesis by blast
qed

theorem finalResult_idempotent_witness:
  "\<not> nullish sample_reply \<and>
   (\<exists>n. finalResult sample_reply = Inr n \<and> finalResult n = Inr n)"
  using finalResult_idempotent[of sample_reply]
  by (simp add: sample_reply_def nullish_def)

text \<open>
  Claim C5. For every validated reply, the normalized \<^verbatim>\<open>confidence_score\<close> is the
  model's value clamped into \<open>[0, 1]\<close> when the model supplied a number; otherwise it
  is 0.7 when \<^verbatim>\<open>contains_food\<close> is true and 0.1 when it is false. In every case
  it lies in \<open>[0, 1]\<close>.
\<close>
theorem finalResult_confidence_score:
  assumes "validated r"
  shows "\<exists>n b. finalResult r = Inr n \<and> js_member r ''contains_food'' = JBool b
     \<and> js_member n ''confidence_score'' =
         (case js_member r ''confidence_score'' of
            JNum x \<Rightarrow> JNum (if x < 0 then 0 else if 1 < x then 1 else x)
          | _ \<Rightarrow> if b then JNum 0.7 else JNum 0.1)
     \<and> in_unit_interval (js_member n ''confidence_score'')"
proof -
  obtain n where n: "finalResult r = Inr n"
    using validated_not_nullish[OF assms] by (simp add: finalResult_def)
  obtain b where b: "js_member r ''contains_food'' = JBool b"
    using validated_contains_food[OF assms] by blast
  have c: "js_member n ''confidence_score'' = confidence_score r"
    by (rule finalResult_members(12)[OF n])
  have "confidence_score r =
         (case js_member r ''confidence_score'' of
            JNum x \<Rightarrow> JNum (if x < 0 then 0 else if 1 < x then 1 else x)
          | _ \<Rightarrow> if b then JNum 0.7 else JNum 0.1)"
    by (cases "js_member r ''confidence_score''")
       (simp_all add: confidence_score_def b max_def min_def)
  with n b c confidence_score_range[of r] show ?thesis by simp
qed

theorem finalResult_confidence_score_witness:
  "validated (JObj [(''contains_food'', JBool False), (''confidence_score'', JNum 1.5)]) \<and>
   (\<exists>n. finalResult (JObj [(''contains_food'', JBool False), (''confidence_score'', JNum 1.5)])
          = Inr n \<and> js_member n ''confidence_score'' = JNum 1)"
  using finalResult_confidence_score
          [of "JObj [(''contains_food'', JBool False), (''confidence_score'', JNum 1.5)]"]
  by (auto simp: validated_def opt_member_def nullish_def)

lemma sample_reply_finalResult: "finalResult sample_reply = Inr sample_final"
  by (simp add: finalResult_def sample_reply_def sample_final_def nullish_def js_or_def
        js_coalesce_def macros_def opt_member_def confidence_score_def)

text \<open>
  Claim C1, as amended. For every validated reply the normalization returns an object in
  which \<^verbatim>\<open>dish_name\<close>, \<^verbatim>\<open>cuisine\<close>, \<^verbatim>\<open>serving_size\<close>, \<^verbatim>\<open>ingredients\<close>
  and \<^verbatim>\<open>allergens\<close> hold the model's value or, when that is missing or falsy, the
  default (\<^verbatim>\<open>"Unknown Dish"\<close> or \<^verbatim>\<open>"N/A"\<close> by \<^verbatim>\<open>contains_food\<close>,
  \<^verbatim>\<open>"Unknown"\<close>, \<^verbatim>\<open>"N/A"\<close>, the empty list), \<^verbatim>\<open>macros\<close> is an object and
  \<^verbatim>\<open>confidence_score\<close> a number in \<open>[0, 1]\<close>: none of these is absent. The fields
  \<^verbatim>\<open>cooking_method\<close>, \<^verbatim>\<open>portion_size\<close>, \<^verbatim>\<open>total_calories\<close> and
  \<^verbatim>\<open>portion_comparison\<close>, and the six members of \<^verbatim>\<open>macros\<close>, get no default:
  each holds the model's value, and is absent when the model gave none or gave
  \<^verbatim>\<open>null\<close>.
\<close>

theorem finalResult_defaults:
  assumes "validated r"
  shows "\<exists>n b. finalResult r = Inr n \<and> js_member r ''contains_food'' = JBool b \<and>
     js_member n ''contains_food'' = JBool b \<and>
     js_member n ''dish_name'' =
       (if truthy (js_member r ''dish_name'') then js_member r ''dish_name''
        else JStr (if b then ''Unknown Dish'' else ''N/A'')) \<and>
     js_member n ''cuisine'' =
       (if truthy (js_member r ''cuisine'') then js_member r ''cuisine'' else JStr ''Unknown'') \<and>
     js_member n ''serving_size'' =
       (if truthy (js_member r ''serving_size'') then js_member r ''serving_size''
        else JStr ''N/A'') \<and>
     js_member n ''ingredients'' =
       (if truthy (js_member r ''ingredients'') then js_member r ''ingredients'' else JArr []) \<and>
     js_member n ''allergens'' =
       (if truthy (js_member r ''allergens'') then js_member r ''allergens'' else JArr []) \<and>
     (\<exists>ms. js_member n ''macros'' = JObj ms) \<and>
     in_unit_interval (js_member n ''confidence_score'') \<and>
     list_all (\<lambda>k. js_member n k \<noteq> JUndefined)
       [''contains_food'', ''dish_name'', ''cuisine'', ''serving_size'', ''ingredients'',
        ''macros'', ''allergens'', ''confidence_score''] \<and>
     list_all (\<lambda>k. js_member n k =
                 (if js_member r k = JNull then JUndefined else js_member r k))
       [''cooking_method'', ''portion_size'', ''total_calories'', ''portion_comparison''] \<and>
     list_all (\<lambda>k. js_member (js_member n ''macros'') k =
                 (if opt_member (js_member r ''macros'') k = JNull then JUndefined
                  else opt_member (js_member r ''macros'') k))
       [''protein'', ''carbs'', ''fiber'', ''fat'', ''saturated_fat'', ''unsaturated_fat'']"
proof -
  obtain n where n: "finalResult r = Inr n"
    using validated_not_nullish[OF assms] by (simp add: finalResult_def)
  obtain b where b: "js_member r ''contains_food'' = JBool b"
    using validated_contains_food[OF assms] by blast
  note m = finalResult_members[OF n]
  have conf: "in_unit_interval (js_member n ''confidence_score'')"
    using m(12) confidence_score_range[of r] by simp
  then have conf_defined: "js_member n ''confidence_score'' \<noteq> JUndefined"
    by (cases "js_member n ''confidence_score''") simp_all
  have defaults:
    "js_member n ''dish_name'' =
       (if truthy (js_member r ''dish_name'') then js_member r ''dish_name''
        else JStr (if b then ''Unknown Dish'' else ''N/A''))"
    "js_member n ''cuisine'' =
       (if truthy (js_member r ''cuisine'') then js_member r ''cuisine'' else JStr ''Unknown'')"
    "js_member n ''serving_size'' =
       (if truthy (js_member r ''serving_size'') then js_member r ''serving_size''
        else JStr ''N/A'')"
    "js_member n ''ingredients'' =
       (if truthy (js_member r ''ingredients'') then js_member r ''ingredients'' else JArr [])"
    "js_member n ''allergens'' =
       (if truthy (js_member r ''allergens'') then js_member r ''allergens'' else JArr [])"
    by (simp_all add: m b js_or_def)
  have present:
    "js_member n ''dish_name'' \<noteq> JUndefined" "js_member n ''cuisine'' \<noteq> JUndefined"
    "js_member n ''serving_size'' \<noteq> JUndefined" "js_member n ''ingredients'' \<noteq> JUndefined"
    "js_member n ''allergens'' \<noteq> JUndefined"
    unfolding defaults by (auto dest: truthy_defined)
  have passed:
    "list_all (\<lambda>k. js_member n k =
                 (if js_member r k = JNull then JUndefined else js_member r k))
       [''cooking_method'', ''portion_size'', ''total_calories'', ''portion_comparison'']"
    by (simp add: m js_coalesce_def nullish_def)
  have macros_members:
    "list_all (\<lambda>k. js_member (js_member n ''macros'') k =
                 (if opt_member (js_member r ''macros'') k = JNull then JUndefined
                  else opt_member (js_member r ''macros'') k))
       [''protein'', ''carbs'', ''fiber'', ''fat'', ''saturated_fat'', ''unsaturated_fat'']"
    by (simp add: m(9) macros_def js_coalesce_def nullish_def)
  have macros_obj: "\<exists>ms. js_member n ''macros'' = JObj ms"
    by (simp add: m(9) macros_def)
  show ?thesis
    apply (intro exI[of _ n] exI[of _ b])
    using n b defaults conf present conf_defined passed macros_members macros_obj
    apply (simp add: m(1))
    apply (simp add: m(9) macros_def)
    done
qed

theorem finalResult_defaults_witness:
  "validated sample_reply \<and> finalResult sample_reply = Inr sample_final \<and>
   js_member sample_final ''dish_name'' = JStr ''Unknown Dish'' \<and>
   js_member sample_final ''cuisine'' = JStr ''Unknown'' \<and>
   js_member sample_final ''serving_size'' = JStr ''N/A'' \<and>
   js_member sample_final ''ingredients'' = JArr [] \<and>
   js_member sample_final ''allergens'' = JArr [] \<and>
   js_member sample_final ''total_calories'' = JNum 450 \<and>
   in_unit_interval (js_member sample_final ''confidence_score'')"
proof -
  have v: "validated sample_reply"
    by (simp add: sample_reply_def validated_def opt_member_def nullish_def)
  from finalResult_defaults[OF v] sample_reply_finalResult v show ?thesis
    by (auto simp: sample_reply_def)
qed

text \<open>
  As stated (no optional field absent) the claim fails: for the reply
  \<^verbatim>\<open>{"contains_food": true, "total_calories": 450}\<close> the normalized result has no
  \<^verbatim>\<open>cooking_method\<close>, \<^verbatim>\<open>portion_size\<close> or \<^verbatim>\<open>portion_comparison\<close>, and its
  \<^verbatim>\<open>macros\<close> has no \<^verbatim>\<open>protein\<close>.
\<close>

theorem finalResult_optional_fields_absent:
  "validated sample_reply \<and> finalResult sample_reply = Inr sample_final \<and>
   js_member sample_final ''cooking_method'' = JUndefined \<and>
   js_member sample_final ''portion_size'' = JUndefined \<and>
   js_member sample_final ''portion_comparison'' = JUndefined \<and>
   js_member (js_member sample_final ''macros'') ''protein'' = JUndefined"
  by (simp add: sample_reply_finalResult)
     (simp add: sample_reply_def sample_final_def validated_def opt_member_def nullish_def)

section \<open>Properties of the analyze handler\<close>

lemma steps_0_to_3_Inr_iff:
  "steps_0_to_3 env w = Inr (ctx, w1) \<longleftrightarrow>
     model_initialized env \<and>
     (\<exists>r uid imageUrl imageBuffer mimeType.
        getSession env = Returns r \<and> session_error r = None \<and> data_session r = Some uid \<and>
        read_imageUrl env = Inr imageUrl \<and>
        fetch_image env imageUrl = Inr (imageBuffer, mimeType) \<and>
        ctx = (uid, imageUrl, imageBuffer, mimeType) \<and>
        w1 = log_call (Fetch imageUrl) (log_call GetSession w))"
  unfolding steps_0_to_3_def Let_def
  by (auto split: outcome.splits option.splits sum.splits prod.splits)

lemma steps_0_to_3_calls:
  assumes "steps_0_to_3 env w = Inr ((uid, imageUrl, imageBuffer, mimeType), w1)"
  shows "calls w1 = calls w @ [GetSession, Fetch imageUrl]"
    and "food_analyses w1 = food_analyses w"
    and "s3_objects w1 = s3_objects w"
  using assms unfolding steps_0_to_3_Inr_iff by (auto simp: log_call_def)

lemma parse_reply_validated: "parse_reply env t = Inr a \<Longrightarrow> validated a"
  unfolding parse_reply_def Let_def
  by (auto split: if_splits outcome.splits)

lemma vision_reply_validated: "vision_reply env = Inr a \<Longrightarrow> validated a"
  unfolding vision_reply_def
  by (auto split: if_splits outcome.splits option.splits list.splits
           dest: parse_reply_validated)

lemma parse_reply_db_insert:
  "parse_reply (env\<lparr>db_insert := ins\<rparr>) t = parse_reply env t"
  by (simp add: parse_reply_def Let_def
        cong: if_cong outcome.case_cong option.case_cong list.case_cong sum.case_cong)

lemma vision_reply_db_insert:
  "vision_reply (env\<lparr>db_insert := ins\<rparr>) = vision_reply env"
  by (simp add: vision_reply_def parse_reply_db_insert
           cong: outcome.case_cong option.case_cong list.case_cong if_cong)

lemma model_initialized_db_insert:
  "model_initialized (env\<lparr>db_insert := ins\<rparr>) = model_initialized env"
  by (simp add: model_initialized_def
        cong: if_cong outcome.case_cong option.case_cong list.case_cong sum.case_cong)

lemma read_imageUrl_db_insert:
  "read_imageUrl (env\<lparr>db_insert := ins\<rparr>) = read_imageUrl env"
  by (simp add: read_imageUrl_def Let_def
        cong: if_cong outcome.case_cong option.case_cong list.case_cong sum.case_cong)

lemma fetch_image_db_insert:
  "fetch_image (env\<lparr>db_insert := ins\<rparr>) url = fetch_image env url"
  by (simp add: fetch_image_def Let_def
        cong: if_cong outcome.case_cong option.case_cong list.case_cong sum.case_cong)

lemma steps_0_to_3_db_insert:
  "steps_0_to_3 (env\<lparr>db_insert := ins\<rparr>) w = steps_0_to_3 env w"
  by (simp add: steps_0_to_3_def Let_def model_initialized_db_insert read_imageUrl_db_insert
        fetch_image_db_insert
        cong: if_cong outcome.case_cong option.case_cong list.case_cong sum.case_cong)

lemma steps_4_to_8_failed:
  assumes "vision_reply env = Inl e"
  shows "steps_4_to_8 env (uid, imageUrl, imageBuffer, mimeType) w =
           (analysis_failed e, log_call (GenerateContent mimeType imageBuffer) w)"
  using assms by (simp add: steps_4_to_8_def)

lemma steps_4_to_8_ok:
  assumes "vision_reply env = Inr a" and "finalResult a = Inr n"
  shows "steps_4_to_8 env (uid, imageUrl, imageBuffer, mimeType) w =
           (NextResponse_json n 200,
            save_analysis env uid imageUrl n (log_call (GenerateContent mimeType imageBuffer) w))"
  using assms validated_truthy[OF vision_reply_validated[OF assms(1)]]
  by (simp add: steps_4_to_8_def)

lemma vision_reply_finalResult:
  assumes "vision_reply env = Inr a"
  shows "\<exists>n. finalResult a = Inr n"
  using validated_not_nullish[OF vision_reply_validated[OF assms]]
  by (simp add: finalResult_def)

lemma model_initialized_getSession:
  "model_initialized (env\<lparr>getSession := g\<rparr>) = model_initialized env"
  by (simp add: model_initialized_def
        cong: if_cong outcome.case_cong option.case_cong)

lemma steps_0_to_3_unavailable:
  assumes "\<not> model_initialized env"
  shows "steps_0_to_3 env w =
           Inl (NextResponse_json
                  (JObj [(''error'',
                           JStr ''Server configuration error: AI analysis service is unavailable.''),
                         (''contains_food'', JBool False)])
                  503, w)"
  using assms by (simp add: steps_0_to_3_def)

text \<open>
  Claim C9. The analyze handler checks that the model's client is available before it
  authenticates: when the client is not initialized, the response is the 503 whatever
  the session guard would answer (also for a caller without a session), and the world
  is unchanged: the session guard is not called.
\<close>

theorem analyze_unavailable_before_auth:
  assumes "\<not> model_initialized env"
  shows "\<forall>g. analyze_POST (env\<lparr>getSession := g\<rparr>) w =
           (NextResponse_json
              (JObj [(''error'',
                       JStr ''Server configuration error: AI analysis service is unavailable.''),
                     (''contains_food'', JBool False)])
              503, w)"
  using assms
  by (simp add: analyze_POST_def steps_0_to_3_unavailable model_initialized_getSession)

theorem analyze_unavailable_before_auth_witness:
  "\<not> model_initialized env_unconfigured \<and>
   getSession env_unconfigured = Returns \<lparr>data_session = None, session_error = None\<rparr> \<and>
   resp_status (fst (analyze_POST env_unconfigured world0)) = 503 \<and>
   snd (analyze_POST env_unconfigured world0) = world0"
  using analyze_unavailable_before_auth[of env_unconfigured world0]
  by (simp add: env_unconfigured_def env_anonymous_def env_ok_def model_initialized_def
        NextResponse_json_def)

text \<open>
  Claim C3, as amended. When the model's client is initialized, every request of a
  caller for whom the session guard returns no session is rejected with status 401; the
  session guard's call is the only one made. Without the client the response is the
  503 of step 0, also for such a caller.
\<close>

theorem analyze_unauthenticated_401:
  assumes "model_initialized env" and "getSession env = Returns r" and "data_session r = None"
  shows "resp_status (fst (analyze_POST env w)) = 401 \<and>
         js_member (resp_body (fst (analyze_POST env w))) ''contains_food'' = JBool False \<and>
         snd (analyze_POST env w) = log_call GetSession w"
proof (cases "session_error r")
  case None
  with assms show ?thesis
    by (simp add: analyze_POST_def steps_0_to_3_def Let_def NextResponse_json_def)
next
  case (Some sessionError)
  with assms show ?thesis
    by (simp add: analyze_POST_def steps_0_to_3_def Let_def NextResponse_json_def)
qed

theorem analyze_unauthenticated_401_witness:
  "model_initialized env_anonymous \<and>
   getSession env_anonymous = Returns \<lparr>data_session = None, session_error = None\<rparr> \<and>
   resp_status (fst (analyze_POST env_anonymous world0)) = 401"
  using analyze_unauthenticated_401
          [of env_anonymous "\<lparr>data_session = None, session_error = None\<rparr>" world0]
  by (simp add: env_anonymous_def env_ok_def model_initialized_def)

text \<open>
  As stated (401 whatever the server's state) the claim fails: on a server without the
  model's key the caller without a session gets the 503.
\<close>

theorem analyze_unauthenticated_503:
  "getSession env_unconfigured = Returns \<lparr>data_session = None, session_error = None\<rparr> \<and>
   resp_status (fst (analyze_POST env_unconfigured world0)) = 503"
  by (simp add: env_unconfigured_def env_anonymous_def env_ok_def model_initialized_def
       analyze_POST_def steps_0_to_3_def NextResponse_json_def)

lemma analysis_failed_body:
  "\<exists>msg. msg \<noteq> [] \<and>
     analysis_failed e =
       NextResponse_json
         (JObj [(''contains_food'', JBool False),
                (''dish_name'', JStr ''Analysis Failed''),
                (''error'', JStr msg)])
         500"
  by (rule exI[of _ "''Could not process AI response: ''
                      @ (if err_message e \<noteq> [] then err_message e else ''Unknown AI error'')"])
     (simp add: analysis_failed_def)

text \<open>Step 5 returns a reply exactly on this path; every other run of it fails.\<close>

lemma vision_reply_Inr_iff:
  "vision_reply env = Inr a \<longleftrightarrow>
     (\<exists>resp c cs p ps t.
        generateContent env = Returns resp \<and>
        candidates resp = Some (c # cs) \<and>
        finishReason c \<in> {None, Some STOP, Some MAX_TOKENS} \<and>
        content_parts c = Some (p # ps) \<and>
        part_text p = Some t \<and> t \<noteq> [] \<and>
        startsWith (strip_fences t) ''{'' \<and> endsWith (strip_fences t) ''}'' \<and>
        JSON_parse env (strip_fences t) = Returns a \<and>
        validated a)"
  unfolding vision_reply_def parse_reply_def Let_def
  by (auto split: outcome.splits option.splits list.splits if_splits)

text \<open>
  Claim C6. Whenever a call reaches the model's invocation (steps 0 to 3 passed) and the
  invocation, the reply's parsing or its validation fails, the response has status 500,
  \<^verbatim>\<open>contains_food: false\<close>, the dish name \<^verbatim>\<open>"Analysis Failed"\<close> and a non-empty
  error string; no row is inserted: the calls made are those of the session guard, the
  fetch and the model, and the table is unchanged.
\<close>

theorem analyze_model_failure:
  assumes "steps_0_to_3 env w = Inr ((uid, imageUrl, imageBuffer, mimeType), w1)"
      and "vision_reply env = Inl e"
  shows "\<exists>msg. msg \<noteq> [] \<and>
           fst (analyze_POST env w) =
             NextResponse_json
               (JObj [(''contains_food'', JBool False),
                      (''dish_name'', JStr ''Analysis Failed''),
                      (''error'', JStr msg)])
               500 \<and>
           calls (snd (analyze_POST env w)) =
             calls w @ [GetSession, Fetch imageUrl, GenerateContent mimeType imageBuffer] \<and>
           food_analyses (snd (analyze_POST env w)) = food_analyses w"
proof -
  have run: "analyze_POST env w =
               (analysis_failed e, log_call (GenerateContent mimeType imageBuffer) w1)"
    using assms by (simp add: analyze_POST_def steps_4_to_8_failed)
  obtain msg where msg: "msg \<noteq> []"
     "analysis_failed e =
       NextResponse_json
         (JObj [(''contains_food'', JBool False),
                (''dish_name'', JStr ''Analysis Failed''),
                (''error'', JStr msg)])
         500"
    using analysis_failed_body[of e] by blast
  have "calls (snd (analyze_POST env w)) =
          calls w @ [GetSession, Fetch imageUrl, GenerateContent mimeType imageBuffer]"
       "food_analyses (snd (analyze_POST env w)) = food_analyses w"
    using run steps_0_to_3_calls[OF assms(1)] by (simp_all add: log_call_def)
  moreover have "fst (analyze_POST env w) = analysis_failed e"
    using run by simp
  ultimately show ?thesis
    using msg by (intro exI[of _ msg]) simp
qed

lemma env_ok_steps_0_to_3:
  "steps_0_to_3 env_ok world0 =
     Inr ((''user-1'', sample_url, [255, 216, 255], ''image/jpeg''),
          log_call (Fetch sample_url) (log_call GetSession world0))"
  by (simp add: steps_0_to_3_def env_ok_def model_initialized_def read_imageUrl_def
        fetch_image_def sample_image_def img_ok_def startsWith_def sample_url_def nullish_def)

lemma env_ok_vision_reply: "vision_reply env_ok = Inr sample_reply"
  by (simp add: vision_reply_def env_ok_def sample_candidate_def parse_reply_def
        strip_fences_def sample_text_def trim_def is_whitespace_def startsWith_def
        endsWith_def substring_def lastIndexOf_def sample_JSON_parse_def
        sample_reply_def validated_def opt_member_def nullish_def)

lemma env_model_fails_steps_0_to_3:
  "steps_0_to_3 env_model_fails world0 =
     Inr ((''user-1'', sample_url, [255, 216, 255], ''image/jpeg''),
          log_call (Fetch sample_url) (log_call GetSession world0))"
  by (simp add: steps_0_to_3_def env_model_fails_def env_ok_def model_initialized_def
        read_imageUrl_def fetch_image_def sample_image_def img_ok_def startsWith_def
        sample_url_def nullish_def)

lemma env_model_fails_vision_reply: "vision_reply env_model_fails = Inl (Error [])"
  by (simp add: vision_reply_def env_model_fails_def env_ok_def)

theorem analyze_model_failure_witness:
  "steps_0_to_3 env_model_fails world0 =
     Inr ((''user-1'', sample_url, [255, 216, 255], ''image/jpeg''),
          log_call (Fetch sample_url) (log_call GetSession world0)) \<and>
   vision_reply env_model_fails = Inl (Error []) \<and>
   (\<exists>msg. msg \<noteq> [] \<and>
      fst (analyze_POST env_model_fails world0) =
        NextResponse_json
          (JObj [(''contains_food'', JBool False),
                 (''dish_name'', JStr ''Analysis Failed''),
                 (''error'', JStr msg)])
          500 \<and>
      calls (snd (analyze_POST env_model_fails world0)) =
        [GetSession, Fetch sample_url, GenerateContent ''image/jpeg'' [255, 216, 255]] \<and>
      food_analyses (snd (analyze_POST env_model_fails world0)) = [])"
  using analyze_model_failure[OF env_model_fails_steps_0_to_3 env_model_fails_vision_reply]
        env_model_fails_steps_0_to_3 env_model_fails_vision_reply
  by (simp add: world0_def)

lemma analyze_POST_ok:
  assumes "steps_0_to_3 env w = Inr ((uid, imageUrl, imageBuffer, mimeType), w1)"
      and "vision_reply env = Inr a"
      and "finalResult a = Inr n"
  shows "analyze_POST env w =
           (NextResponse_json n 200,
            save_analysis env uid imageUrl n (log_call (GenerateContent mimeType imageBuffer) w1))"
  using assms by (simp add: analyze_POST_def steps_4_to_8_ok)

text \<open>
  Claim C4. Whenever the model's reply was validated and normalized, the response is
  the normalized result with status 200 whatever the insert does: with any outcome of
  the store's insert (an error returned, an exception thrown) in place of the run's,
  the response is the same.
\<close>

theorem analyze_response_ignores_insert:
  assumes "steps_0_to_3 env w = Inr (ctx, w1)" and "vision_reply env = Inr a"
  shows "\<exists>n. finalResult a = Inr n \<and>
           (\<forall>ins. fst (analyze_POST (env\<lparr>db_insert := ins\<rparr>) w) = NextResponse_json n 200)"
proof -
  obtain n where n: "finalResult a = Inr n"
    using vision_reply_finalResult[OF assms(2)] by blast
  obtain uid imageUrl imageBuffer mimeType where ctx: "ctx = (uid, imageUrl, imageBuffer, mimeType)"
    by (cases ctx) auto
  have "fst (analyze_POST (env\<lparr>db_insert := ins\<rparr>) w) = NextResponse_json n 200" for ins
  proof -
    have "steps_0_to_3 (env\<lparr>db_insert := ins\<rparr>) w =
            Inr ((uid, imageUrl, imageBuffer, mimeType), w1)"
      using assms(1) ctx by (simp add: steps_0_to_3_db_insert)
    moreover have "vision_reply (env\<lparr>db_insert := ins\<rparr>) = Inr a"
      using assms(2) by (simp add: vision_reply_db_insert)
    ultimately show ?thesis
      using analyze_POST_ok[OF _ _ n] by simp
  qed
  with n show ?thesis by blast
qed

theorem analyze_response_ignores_insert_witness:
  "steps_0_to_3 env_ok world0 =
     Inr ((''user-1'', sample_url, [255, 216, 255], ''image/jpeg''),
          log_call (Fetch sample_url) (log_call GetSession world0)) \<and>
   vision_reply env_ok = Inr sample_reply \<and>
   fst (analyze_POST
          (env_ok\<lparr>db_insert := Throws \<lparr>err_name = ''FetchError'',
                                         err_message = ''network down''\<rparr>\<rparr>) world0) =
     NextResponse_json sample_final 200 \<and>
   js_member sample_final ''dish_name'' = JStr ''Unknown Dish''"
  using analyze_response_ignores_insert[OF env_ok_steps_0_to_3 env_ok_vision_reply]
        env_ok_steps_0_to_3 env_ok_vision_reply
  by (simp add: sample_reply_finalResult sample_final_def)

lemma save_analysis_no_food:
  assumes "js_member n ''contains_food'' = JBool False"
  shows "save_analysis env uid imageUrl n w = w"
  using assms by (simp add: save_analysis_def)

lemma save_analysis_food:
  assumes "js_member n ''contains_food'' = JBool True"
  shows "calls (save_analysis env uid imageUrl n w) =
           calls w @ [Insert \<lparr>user_id = uid, image_url = imageUrl, analysis_result = n\<rparr>]"
    and "food_analyses (save_analysis env uid imageUrl n w) =
           (if db_insert env = Returns None
            then food_analyses w @ [\<lparr>user_id = uid, image_url = imageUrl, analysis_result = n\<rparr>]
            else food_analyses w)"
  using assms
  by (auto simp: save_analysis_def Let_def log_call_def split: outcome.splits option.splits)

text \<open>
  Claim C2, as amended. For every call whose validated reply has
  \<^verbatim>\<open>contains_food: false\<close>, no row is inserted and the table is unchanged. For every
  call whose reply has \<^verbatim>\<open>contains_food: true\<close>, exactly one insert is issued, of the
  row of the user, the image's URL and the normalized result, whose
  \<^verbatim>\<open>confidence_score\<close> lies in \<open>[0, 1]\<close>; the table gains exactly that row when
  the insert returns no error, and is unchanged when the insert fails.
\<close>

theorem analyze_persists_on_food:
  assumes "steps_0_to_3 env w = Inr ((uid, imageUrl, imageBuffer, mimeType), w1)"
      and "vision_reply env = Inr a"
  shows "\<exists>n b. finalResult a = Inr n \<and> js_member a ''contains_food'' = JBool b \<and>
     (if b
      then calls (snd (analyze_POST env w)) =
             calls w @ [GetSession, Fetch imageUrl, GenerateContent mimeType imageBuffer,
                        Insert \<lparr>user_id = uid, image_url = imageUrl, analysis_result = n\<rparr>] \<and>
           in_unit_interval (js_member n ''confidence_score'') \<and>
           food_analyses (snd (analyze_POST env w)) =
             (if db_insert env = Returns None
              then food_analyses w
                     @ [\<lparr>user_id = uid, image_url = imageUrl, analysis_result = n\<rparr>]
              else food_analyses w)
      else calls (snd (analyze_POST env w)) =
             calls w @ [GetSession, Fetch imageUrl, GenerateContent mimeType imageBuffer] \<and>
           food_analyses (snd (analyze_POST env w)) = food_analyses w)"
proof -
  obtain n where n: "finalResult a = Inr n"
    using vision_reply_finalResult[OF assms(2)] by blast
  obtain b where b: "js_member a ''contains_food'' = JBool b"
    using validated_contains_food[OF vision_reply_validated[OF assms(2)]] by blast
  have nb: "js_member n ''contains_food'' = JBool b"
    using finalResult_members(1)[OF n] b by simp
  have conf: "in_unit_interval (js_member n ''confidence_score'')"
    using finalResult_members(12)[OF n] confidence_score_range[of a] by simp
  note run = analyze_POST_ok[OF assms n]
  note w1 = steps_0_to_3_calls[OF assms(1)]
  show ?thesis
  proof (cases b)
    case True
    with nb have food: "js_member n ''contains_food'' = JBool True" by simp
    show ?thesis
      using n b True conf run w1 save_analysis_food[OF food, of env uid imageUrl]
      by (intro exI[of _ n] exI[of _ b]) (simp add: log_call_def)
  next
    case False
    with nb have nofood: "js_member n ''contains_food'' = JBool False" by simp
    show ?thesis
      using n b False run w1 save_analysis_no_food[OF nofood]
      by (intro exI[of _ n] exI[of _ b]) (simp add: log_call_def)
  qed
qed

theorem analyze_persists_on_food_witness:
  "steps_0_to_3 env_ok world0 =
     Inr ((''user-1'', sample_url, [255, 216, 255], ''image/jpeg''),
          log_call (Fetch sample_url) (log_call GetSession world0)) \<and>
   vision_reply env_ok = Inr sample_reply \<and>
   js_member sample_reply ''contains_food'' = JBool True \<and>
   finalResult sample_reply = Inr sample_final \<and>
   db_insert env_ok = Returns None \<and>
   calls (snd (analyze_POST env_ok world0)) =
     [GetSession, Fetch sample_url, GenerateContent ''image/jpeg'' [255, 216, 255],
      Insert \<lparr>user_id = ''user-1'', image_url = sample_url, analysis_result = sample_final\<rparr>] \<and>
   food_analyses (snd (analyze_POST env_ok world0)) =
     [\<lparr>user_id = ''user-1'', image_url = sample_url, analysis_result = sample_final\<rparr>]"
  using analyze_persists_on_food[OF env_ok_steps_0_to_3 env_ok_vision_reply]
        env_ok_steps_0_to_3 env_ok_vision_reply sample_reply_finalResult
  by (auto simp: world0_def sample_reply_def env_ok_def)

lemma env_insert_fails_run:
  "steps_0_to_3 env_insert_fails world0 =
     Inr ((''user-1'', sample_url, [255, 216, 255], ''image/jpeg''),
          log_call (Fetch sample_url) (log_call GetSession world0))"
  "vision_reply env_insert_fails = Inr sample_reply"
  by (simp_all add: env_insert_fails_def steps_0_to_3_db_insert vision_reply_db_insert
        env_ok_steps_0_to_3 env_ok_vision_reply)

lemma sample_final_food: "js_member sample_final ''contains_food'' = JBool True"
  by (simp add: sample_final_def)

text \<open>
  As stated (exactly one row persisted) the claim fails: when the store rejects the
  insert, the reply with \<^verbatim>\<open>contains_food: true\<close> is answered with status 200 and
  the table stays empty.
\<close>

theorem analyze_insert_failure_persists_nothing:
  "vision_reply env_insert_fails = Inr sample_reply \<and>
   js_member sample_reply ''contains_food'' = JBool True \<and>
   resp_status (fst (analyze_POST env_insert_fails world0)) = 200 \<and>
   food_analyses (snd (analyze_POST env_insert_fails world0)) = []"
proof -
  have run: "analyze_POST env_insert_fails world0 =
      (NextResponse_json sample_final 200,
       save_analysis env_insert_fails ''user-1'' sample_url sample_final
         (log_call (GenerateContent ''image/jpeg'' [255, 216, 255])
            (log_call (Fetch sample_url) (log_call GetSession world0))))"
    by (rule analyze_POST_ok[OF env_insert_fails_run sample_reply_finalResult])
  have "db_insert env_insert_fails \<noteq> Returns None"
    by (simp add: env_insert_fails_def)
  then have "food_analyses (snd (analyze_POST env_insert_fails world0)) = []"
    using run save_analysis_food(2)[OF sample_final_food, of env_insert_fails]
    by (simp add: log_call_def world0_def)
  moreover have "resp_status (fst (analyze_POST env_insert_fails world0)) = 200"
    using run by (simp add: NextResponse_json_def)
  moreover have "js_member sample_reply ''contains_food'' = JBool True"
    by (simp add: sample_reply_def)
  ultimately show ?thesis
    using env_insert_fails_run(2) by simp
qed

section \<open>Properties of the upload handler\<close>

lemma js_split_not_Nil: "js_split s c \<noteq> []"
  by (induction s) (auto split: list.splits)

lemma js_split_no_separator: "c \<notin> set s \<Longrightarrow> js_split s c = [s]"
  by (induction s) auto

lemma js_split_append:
  "js_split (pre @ c # ext) c = js_split pre c @ js_split ext c"
proof (induction pre)
  case Nil
  show ?case by simp
next
  case (Cons x pre)
  obtain seg segs where s: "js_split pre c = seg # segs"
    using js_split_not_Nil[of pre c] by (cases "js_split pre c") auto
  show ?case using Cons s by simp
qed

lemma pop_js_split_after_last:
  assumes "c \<notin> set ext"
  shows "pop (js_split (pre @ c # ext) c) = Some ext"
  using assms by (simp add: pop_def js_split_append js_split_no_separator js_split_not_Nil)

lemma pop_js_split_whole:
  assumes "c \<notin> set s"
  shows "pop (js_split s c) = Some s"
  using assms by (simp add: pop_def js_split_no_separator)

lemma fileExt_after_last_dot:
  "\<exists>ext. fileExt f = Some ext \<and>
     (if CHR ''.'' \<in> set (file_name f)
      then (\<exists>pre. file_name f = pre @ ''.'' @ ext) \<and> CHR ''.'' \<notin> set ext
      else ext = file_name f)"
proof (cases "CHR ''.'' \<in> set (file_name f)")
  case True
  then obtain pre ext where s: "file_name f = pre @ CHR ''.'' # ext" "CHR ''.'' \<notin> set ext"
    using split_list_last[of "CHR ''.''" "file_name f"] by blast
  then have "fileExt f = Some ext"
    by (simp add: fileExt_def pop_js_split_after_last)
  with s True show ?thesis by auto
next
  case False
  then show ?thesis by (simp add: fileExt_def pop_js_split_whole)
qed

lemma maxSizeBytes_value: "maxSizeBytes = 5242880"
  by (simp add: maxSizeBytes_def maxFileSizeMB_def)

lemma upload_POST_file:
  assumes "getSession env = Returns r" and "session_error r = None"
      and "data_session r = Some uid"
      and "formData_file env = Returns (Some (FormFile f))"
  shows "upload_POST env w =
           (if file_size f > maxSizeBytes
            then (upload_failure (''File too large (max '' @ show_nat maxFileSizeMB @ ''MB)'')
                    413, log_call GetSession w)
            else if file_type f \<notin> set allowedMimeTypes
            then (invalid_file_type, log_call GetSession w)
            else store_file env f (log_call GetSession w))"
  using assms by (simp add: upload_POST_def Let_def)

text \<open>
  Claim C8. For every authenticated upload whose file is larger than 5,242,880 bytes the
  response is the 413 (payload too large); the only call made is the session guard's,
  so the object store is not called, and its objects are unchanged.
\<close>

theorem upload_too_large:
  assumes "getSession env = Returns r" and "session_error r = None"
      and "data_session r = Some uid"
      and "formData_file env = Returns (Some (FormFile f))"
      and "file_size f > 5242880"
  shows "fst (upload_POST env w) = upload_failure ''File too large (max 5MB)'' 413 \<and>
         resp_status (fst (upload_POST env w)) = 413 \<and>
         calls (snd (upload_POST env w)) = calls w @ [GetSession] \<and>
         s3_objects (snd (upload_POST env w)) = s3_objects w"
  using assms(5) upload_POST_file[OF assms(1-4), of w]
  by (simp add: maxSizeBytes_value maxFileSizeMB_def show_nat.simps log_call_def
        upload_failure_def NextResponse_json_def)

theorem upload_too_large_witness:
  "getSession upload_env_big = Returns \<lparr>data_session = Some ''user-1'', session_error = None\<rparr> \<and>
   formData_file upload_env_big = Returns (Some (FormFile (photo\<lparr>file_size := 6291456\<rparr>))) \<and>
   file_size (photo\<lparr>file_size := 6291456\<rparr>) > 5242880 \<and>
   resp_status (fst (upload_POST upload_env_big world0)) = 413 \<and>
   calls (snd (upload_POST upload_env_big world0)) = [GetSession] \<and>
   s3_objects (snd (upload_POST upload_env_big world0)) = []"
proof -
  have env: "getSession upload_env_big =
               Returns \<lparr>data_session = Some ''user-1'', session_error = None\<rparr>"
            "formData_file upload_env_big =
               Returns (Some (FormFile (photo\<lparr>file_size := 6291456\<rparr>)))"
    by (simp_all add: upload_env_big_def upload_env_ok_def)
  have session: "session_error \<lparr>data_session = Some ''user-1'', session_error = None\<rparr> = None"
                "data_session \<lparr>data_session = Some ''user-1'', session_error = None\<rparr>
                   = Some ''user-1''"
    by simp_all
  have big: "file_size (photo\<lparr>file_size := 6291456\<rparr>) > 5242880"
    by simp
  from upload_too_large[OF env(1) session env(2) big, of world0] env big
  show ?thesis by (simp add: world0_def upload_failure_def NextResponse_json_def)
qed

text \<open>
  Claim C10. For every accepted upload (authenticated, within the size limit, of an
  allowed type, on a server with its storage credentials) the object's key is the
  generated UUID followed by \<^verbatim>\<open>"."\<close> and the part of the client's file name after
  its last \<^verbatim>\<open>"."\<close>, or the whole name when it has no \<^verbatim>\<open>"."\<close>. The key is the
  same for every content type of the file. It is the key of the store's upload call and,
  when the upload and the signing succeed, the \<^verbatim>\<open>s3_key\<close> of the response.
\<close>

theorem upload_object_key:
  assumes "getSession env = Returns r" and "session_error r = None"
      and "data_session r = Some uid"
      and "formData_file env = Returns (Some (FormFile f))"
      and "file_size f \<le> maxSizeBytes" and "file_type f \<in> set allowedMimeTypes"
      and "\<not> unset (AWS_ACCESS_KEY_ID env)" and "\<not> unset (AWS_SECRET_ACCESS_KEY env)"
      and "\<not> unset (AWS_REGION env)"
  shows "\<exists>ext key.
     key = uuidv4 env @ ''.'' @ ext \<and>
     (if CHR ''.'' \<in> set (file_name f)
      then (\<exists>pre. file_name f = pre @ ''.'' @ ext) \<and> CHR ''.'' \<notin> set ext
      else ext = file_name f) \<and>
     (\<forall>t. fileName env (f\<lparr>file_type := t\<rparr>) = key) \<and>
     (\<exists>rest. calls (snd (upload_POST env w)) =
        calls w @ GetSession
          # S3Upload (bucketName env) key (file_bytes f) (file_type f) # rest) \<and>
     (\<forall>signedUrl. s3_upload env = Returns () \<longrightarrow>
        s3_getSignedUrlPromise env = Returns signedUrl \<longrightarrow>
        fst (upload_POST env w) =
          NextResponse_json
            (JObj [(''url'', JStr signedUrl), (''success'', JBool True), (''s3_key'', JStr key)])
            200 \<and>
        map_of (s3_objects (snd (upload_POST env w))) (bucketName env, key) =
          Some \<lparr>object_body = file_bytes f, object_content_type = file_type f\<rparr>)"
proof -
  obtain ext where ext: "fileExt f = Some ext"
     "if CHR ''.'' \<in> set (file_name f)
      then (\<exists>pre. file_name f = pre @ ''.'' @ ext) \<and> CHR ''.'' \<notin> set ext
      else ext = file_name f"
    using fileExt_after_last_dot[of f] by blast
  define key where "key = uuidv4 env @ ''.'' @ ext"
  have key: "fileName env f = key"
    by (simp add: fileName_def ext(1) key_def)
  have any_type: "fileName env (f\<lparr>file_type := t\<rparr>) = key" for t
    using key by (simp add: fileName_def fileExt_def)
  have run: "upload_POST env w = store_file env f (log_call GetSession w)"
    using upload_POST_file[OF assms(1-4), of w] assms(5,6) by simp
  have logged: "\<exists>rest. calls (snd (upload_POST env w)) =
        calls w @ GetSession
          # S3Upload (bucketName env) key (file_bytes f) (file_type f) # rest"
    unfolding run using assms(7-9)
    by (auto simp: store_file_def Let_def key log_call_def split: outcome.splits)
  have success: "fst (upload_POST env w) =
          NextResponse_json
            (JObj [(''url'', JStr signedUrl), (''success'', JBool True), (''s3_key'', JStr key)])
            200 \<and>
        map_of (s3_objects (snd (upload_POST env w))) (bucketName env, key) =
          Some \<lparr>object_body = file_bytes f, object_content_type = file_type f\<rparr>"
    if "s3_upload env = Returns ()" "s3_getSignedUrlPromise env = Returns signedUrl"
    for signedUrl
    unfolding run using assms(7-9) that
    by (simp add: store_file_def Let_def key log_call_def)
  show ?thesis
    using ext(2) any_type logged success key_def by blast
qed

theorem upload_object_key_witness:
  "file_name photo = ''my.lunch.JPG'' \<and> file_type photo = ''image/jpeg'' \<and>
   fst (upload_POST upload_env_ok world0) =
     NextResponse_json
       (JObj [(''url'', JStr sample_url), (''success'', JBool True),
              (''s3_key'', JStr ''1b9d6bcd-bbfd-4b2d-9b5d-ab8dfbbd4bed.JPG'')])
       200"
proof -
  have "\<exists>ext. (\<exists>pre. ''my.lunch.JPG'' = pre @ ''.'' @ ext) \<and> CHR ''.'' \<notin> set ext \<and>
          fst (upload_POST upload_env_ok world0) =
            NextResponse_json
              (JObj [(''url'', JStr sample_url), (''success'', JBool True),
                     (''s3_key'', JStr (''1b9d6bcd-bbfd-4b2d-9b5d-ab8dfbbd4bed'' @ ''.'' @ ext))])
              200"
    using upload_object_key[of upload_env_ok
            "\<lparr>data_session = Some ''user-1'', session_error = None\<rparr>" "''user-1''"
            photo world0]
    by (simp add: upload_env_ok_def photo_def maxSizeBytes_value allowedMimeTypes_def unset_def)
       blast
  then obtain pre ext where e: "''my.lunch.JPG'' = pre @ ''.'' @ ext" "CHR ''.'' \<notin> set ext"
    and r: "fst (upload_POST upload_env_ok world0) =
            NextResponse_json
              (JObj [(''url'', JStr sample_url), (''success'', JBool True),
                     (''s3_key'', JStr (''1b9d6bcd-bbfd-4b2d-9b5d-ab8dfbbd4bed'' @ ''.'' @ ext))])
              200"
    by blast
  have "pop (js_split (pre @ ''.'' @ ext) (CHR ''.'')) = Some ext"
    using pop_js_split_after_last[OF e(2), of pre] by simp
  then have "pop (js_split ''my.lunch.JPG'' (CHR ''.'')) = Some ext"
    by (simp only: e(1)[symmetric])
  then have "ext = ''JPG''"
    by (simp add: pop_def)
  with r show ?thesis by (simp add: photo_def)
qed

end
